theory Spec2Isabelle
  imports Complex_Main
begin

section \<open>JavaScript values\<close>

text \<open>
  The values that \<^verbatim>\<open>server.js\<close> handles come out of \<^verbatim>\<open>JSON.parse\<close> (inbound frames,
  agent response bodies) or are built by the program from such values. A number is a finite
  value or one of the two infinities (\<^verbatim>\<open>JSON.parse('1e999')\<close> is \<^verbatim>\<open>Infinity\<close>); an object is
  the list of its own properties.
\<close>

datatype jsnum = Finite rat | Infinity bool

datatype jsval =
    JUndefined
  | JNull
  | JBool bool
  | JNum jsnum
  | JStr string
  | JArr "jsval list"
  | JObj "(string \<times> jsval) list"

text \<open>
  The ways \<^verbatim>\<open>axios.post\<close> rejects: no connection, a status outside 2xx, a socket that
  timed out. With the options the program passes, a body that is not JSON is no failure:
  the promise is fulfilled with the body as a string.
\<close>

datatype http_failure = Unreachable | BadStatus nat | TimedOut

datatype js_error =
    SyntaxError
  | TypeError
  | ConfigError string
  | HttpError http_failure

text \<open>
  The outcome of awaiting a promise: it never settles, it is fulfilled with a value, or it
  is rejected and the \<^verbatim>\<open>await\<close> throws.
\<close>

datatype 'a promise = Pending | Fulfilled 'a | Rejected js_error

text \<open>
  \<^verbatim>\<open>v.name\<close>: reading a property of \<^verbatim>\<open>undefined\<close> or \<^verbatim>\<open>null\<close> throws a TypeError. The
  program reads the names \<^verbatim>\<open>type\<close>, \<^verbatim>\<open>voicePrompt\<close>, \<^verbatim>\<open>outputs\<close>, \<^verbatim>\<open>results\<close>,
  \<^verbatim>\<open>message\<close> and \<^verbatim>\<open>text\<close>, none of which strings, numbers, booleans or arrays have.
\<close>

fun get_prop :: "jsval \<Rightarrow> string \<Rightarrow> js_error + jsval" where
  "get_prop JUndefined name = Inl TypeError"
| "get_prop JNull name = Inl TypeError"
| "get_prop (JObj props) name =
     (case map_of props name of None \<Rightarrow> Inr JUndefined | Some v \<Rightarrow> Inr v)"
| "get_prop v name = Inr JUndefined"

text \<open>\<^verbatim>\<open>v?.name\<close>: \<^verbatim>\<open>undefined\<close> where \<^verbatim>\<open>v\<close> is \<^verbatim>\<open>undefined\<close> or \<^verbatim>\<open>null\<close>.\<close>

fun opt_prop :: "jsval \<Rightarrow> string \<Rightarrow> jsval" where
  "opt_prop (JObj props) name =
     (case map_of props name of None \<Rightarrow> JUndefined | Some v \<Rightarrow> v)"
| "opt_prop v name = JUndefined"

text \<open>
  \<^verbatim>\<open>v?.[0]\<close>: the first element of an array, the first character of a string, the
  property \<^verbatim>\<open>"0"\<close> of an object.
\<close>

fun opt_index0 :: "jsval \<Rightarrow> jsval" where
  "opt_index0 (JArr []) = JUndefined"
| "opt_index0 (JArr (x # xs)) = x"
| "opt_index0 (JStr []) = JUndefined"
| "opt_index0 (JStr (c # cs)) = JStr [c]"
| "opt_index0 (JObj props) =
     (case map_of props ''0'' of None \<Rightarrow> JUndefined | Some v \<Rightarrow> v)"
| "opt_index0 v = JUndefined"

text \<open>Truthiness, as \<^verbatim>\<open>!\<close>, \<^verbatim>\<open>if\<close> and \<^verbatim>\<open>||\<close> test it.\<close>

fun truthy :: "jsval \<Rightarrow> bool" where
  "truthy JUndefined = False"
| "truthy JNull = False"
| "truthy (JBool b) = b"
| "truthy (JNum (Finite r)) = (r \<noteq> 0)"
| "truthy (JNum (Infinity s)) = True"
| "truthy (JStr s) = (s \<noteq> [])"
| "truthy (JArr xs) = True"
| "truthy (JObj props) = True"

definition js_or :: "jsval \<Rightarrow> jsval \<Rightarrow> jsval" where
  "js_or a b = (if truthy a then a else b)"

text \<open>
  \<^verbatim>\<open>JSON.stringify(v)\<close>, given as the value that the text it produces denotes: an
  infinite number is written \<^verbatim>\<open>null\<close>, as is \<^verbatim>\<open>undefined\<close> in an array, and a property
  whose value is \<^verbatim>\<open>undefined\<close> is left out. (\<^verbatim>\<open>JSON.stringify(undefined)\<close> is
  \<^verbatim>\<open>undefined\<close>.)
\<close>

fun JSON_stringify :: "jsval \<Rightarrow> jsval"
  and stringify_elements :: "jsval list \<Rightarrow> jsval list"
  and stringify_properties :: "(string \<times> jsval) list \<Rightarrow> (string \<times> jsval) list" where
  "JSON_stringify (JNum (Infinity s)) = JNull"
| "JSON_stringify (JArr xs) = JArr (stringify_elements xs)"
| "JSON_stringify (JObj props) = JObj (stringify_properties props)"
| "JSON_stringify v = v"
| "stringify_elements [] = []"
| "stringify_elements (x # xs) =
     (if x = JUndefined then JNull else JSON_stringify x) # stringify_elements xs"
| "stringify_properties [] = []"
| "stringify_properties ((k, v) # props) =
     (if v = JUndefined then stringify_properties props
      else (k, JSON_stringify v) # stringify_properties props)"

section \<open>The agent client: \<^verbatim>\<open>callLangflowAgent\<close>\<close>

text \<open>An environment variable is a string or is not set.\<close>

record env =
  LANGFLOW_URL :: "string option"
  LANGFLOW_API_KEY :: "string option"

text \<open>The three arguments of \<^verbatim>\<open>axios.post(langflowUrl, payload, { headers })\<close>.\<close>

record request =
  req_url :: string
  req_payload :: jsval
  req_config :: "(string \<times> jsval) list"

definition didnt_understand :: string where
  "didnt_understand = ''I'm sorry, I didn't understand that. Could you please try again?''"

definition apology :: string where
  "apology =
     ''I'm sorry, I'm having trouble processing your request right now. Please try again later.''"

definition payload :: "jsval \<Rightarrow> jsval" where
  "payload userMessage =
     JObj [(''input_value'', userMessage),
           (''output_type'', JStr ''chat''),
           (''input_type'', JStr ''chat'')]"

definition headers :: "string option \<Rightarrow> (string \<times> jsval) list" where
  "headers apiKey =
     [(''Content-Type'', JStr ''application/json'')] @
     (case apiKey of
        None \<Rightarrow> []
      | Some k \<Rightarrow> if k \<noteq> [] then [(''Authorization'', JStr (''Bearer '' @ k))] else [])"

text \<open>
  The try block up to the call of \<^verbatim>\<open>axios.post\<close>: it throws when \<^verbatim>\<open>LANGFLOW_URL\<close> is
  not set or empty, and otherwise has the request ready.
\<close>

definition agent_request :: "env \<Rightarrow> jsval \<Rightarrow> js_error + request" where
  "agent_request e userMessage =
     (case LANGFLOW_URL e of
        None \<Rightarrow> Inl (ConfigError ''LANGFLOW_URL not configured'')
      | Some langflowUrl \<Rightarrow>
          if langflowUrl = [] then Inl (ConfigError ''LANGFLOW_URL not configured'')
          else Inr \<lparr>req_url = langflowUrl,
                    req_payload = payload userMessage,
                    req_config = [(''headers'', JObj (headers (LANGFLOW_API_KEY e)))]\<rparr>)"

text \<open>
  \<^verbatim>\<open>response.data?.outputs?.[0]?.outputs?.[0]?.results?.message?.text\<close>
\<close>

definition nested_text :: "jsval \<Rightarrow> jsval" where
  "nested_text body =
     opt_prop (opt_prop (opt_prop (opt_index0 (opt_prop (opt_index0
       (opt_prop body ''outputs'')) ''outputs'')) ''results'') ''message'') ''text''"

definition extract_reply :: "jsval \<Rightarrow> jsval" where
  "extract_reply body =
     js_or (nested_text body)
       (js_or (opt_prop body ''message'') (JStr didnt_understand))"

text \<open>
  What the program writes to the console, one entry for each call of \<^verbatim>\<open>console.log\<close>
  or \<^verbatim>\<open>console.error\<close>, holding the value that is printed.
\<close>

datatype log_entry =
    LogConnected
  | LogReceived jsval
  | LogSetup
  | LogUserSaid jsval
  | LogSending jsval
  | LogInterrupt
  | LogUnknownType jsval
  | LogMessageError js_error
  | LogCalling jsval
  | LogAgentResponse jsval
  | LogAgentError js_error
  | LogDisconnected

text \<open>
  The rest of \<^verbatim>\<open>callLangflowAgent\<close> from \<^verbatim>\<open>await axios.post\<close> on: the promise of
  \<^verbatim>\<open>axios.post\<close> is fulfilled with a response whose \<^verbatim>\<open>data\<close> is the body, is rejected
  (the catch block returns the apology), or never settles.
\<close>

definition agent_catch :: "js_error \<Rightarrow> log_entry list \<Rightarrow> jsval promise \<times> log_entry list" where
  "agent_catch err out = (Fulfilled (JStr apology), out @ [LogAgentError err])"

definition agent_resume ::
  "jsval promise \<Rightarrow> log_entry list \<Rightarrow> jsval promise \<times> log_entry list" where
  "agent_resume response out =
     (case response of
        Pending \<Rightarrow> (Pending, out)
      | Rejected err \<Rightarrow> agent_catch err out
      | Fulfilled body \<Rightarrow>
          (let agentResponse = extract_reply body
           in (Fulfilled agentResponse, out @ [LogAgentResponse agentResponse])))"

text \<open>
  \<^verbatim>\<open>callLangflowAgent(userMessage)\<close>, with the environment, \<^verbatim>\<open>axios.post\<close> and the
  console as parameters. It returns the outcome of its promise and the console.
\<close>

definition callLangflowAgent ::
  "env \<Rightarrow> (request \<Rightarrow> jsval promise) \<Rightarrow> jsval \<Rightarrow> log_entry list
     \<Rightarrow> jsval promise \<times> log_entry list" where
  "callLangflowAgent e post userMessage out =
     (case agent_request e userMessage of
        Inl err \<Rightarrow> agent_catch err out
      | Inr req \<Rightarrow> agent_resume (post req) (out @ [LogCalling userMessage]))"

section \<open>The WebSocket message handler\<close>

text \<open>
  One connection: the texts handed to \<^verbatim>\<open>ws.send\<close> so far, each as the value it denotes,
  the console, and whether the socket has left the state \<^verbatim>\<open>OPEN\<close>. Sending on a socket
  that is closing or closed transmits nothing.
\<close>

record session =
  outbound :: "jsval list"
  console :: "log_entry list"
  ws_closed :: bool

definition console_log :: "log_entry \<Rightarrow> session \<Rightarrow> session" where
  "console_log entry s = s\<lparr>console := console s @ [entry]\<rparr>"

definition ws_send :: "jsval \<Rightarrow> session \<Rightarrow> session" where
  "ws_send text s = (if ws_closed s then s else s\<lparr>outbound := outbound s @ [text]\<rparr>)"

definition response_message :: "jsval \<Rightarrow> jsval" where
  "response_message agentResponse =
     JObj [(''type'', JStr ''text''),
           (''token'', agentResponse),
           (''last'', JBool True),
           (''interruptible'', JBool True)]"

text \<open>The catch block of the handler.\<close>

definition message_catch :: "js_error \<Rightarrow> session \<Rightarrow> session" where
  "message_catch err s = console_log (LogMessageError err) s"

text \<open>
  The handler \<^verbatim>\<open>ws.on('message', async (data) => ...)\<close> runs until it returns or until
  it reaches \<^verbatim>\<open>await callLangflowAgent(userText)\<close>, where it is suspended whatever the
  state of the promise it awaits.
\<close>

datatype progress = Returned | Awaiting "jsval promise"

text \<open>
  The handler up to that point, with \<^verbatim>\<open>JSON.parse\<close> as the parameter \<open>parse\<close>
  (\<open>None\<close> where it throws a SyntaxError). By then \<^verbatim>\<open>callLangflowAgent\<close> has run as far
  as it can: to its end when the endpoint is not configured, to \<^verbatim>\<open>await axios.post\<close>
  otherwise.
\<close>

definition message_begin ::
  "(string \<Rightarrow> jsval option) \<Rightarrow> env \<Rightarrow> (request \<Rightarrow> jsval promise) \<Rightarrow> string \<Rightarrow> session
     \<Rightarrow> progress \<times> session" where
  "message_begin parse e post data s =
     (case parse data of
        None \<Rightarrow> (Returned, message_catch SyntaxError s)
      | Some message \<Rightarrow>
          (let s1 = console_log (LogReceived (JSON_stringify message)) s
           in case get_prop message ''type'' of
                Inl err \<Rightarrow> (Returned, message_catch err s1)
              | Inr t \<Rightarrow>
                  if t = JStr ''setup'' then (Returned, console_log LogSetup s1)
                  else if t = JStr ''prompt'' then
                    (case get_prop message ''voicePrompt'' of
                       Inl err \<Rightarrow> (Returned, message_catch err s1)
                     | Inr userText \<Rightarrow>
                         (let s2 = console_log (LogUserSaid userText) s1;
                              agent = callLangflowAgent e post userText (console s2)
                          in (Awaiting (fst agent), s2\<lparr>console := snd agent\<rparr>)))
                  else if t = JStr ''interrupt'' then (Returned, console_log LogInterrupt s1)
                  else (Returned, console_log (LogUnknownType t) s1)))"

text \<open>
  The rest of \<^verbatim>\<open>case 'prompt'\<close> from \<^verbatim>\<open>await callLangflowAgent(userText)\<close> on, once
  the awaited promise has the given outcome: the frame is logged and sent as
  \<^verbatim>\<open>JSON.stringify(responseMessage)\<close>. It returns the outcome of the handler's promise and
  the session.
\<close>

definition prompt_resume :: "jsval promise \<Rightarrow> session \<Rightarrow> unit promise \<times> session" where
  "prompt_resume agent s =
     (case agent of
        Pending \<Rightarrow> (Pending, s)
      | Rejected err \<Rightarrow> (Fulfilled (), message_catch err s)
      | Fulfilled agentResponse \<Rightarrow>
          (let responseMessage = response_message agentResponse
           in (Fulfilled (),
               ws_send (JSON_stringify responseMessage)
                 (console_log (LogSending (JSON_stringify responseMessage)) s))))"

text \<open>
  One run of the handler from the frame to its end, when nothing else happens on the
  connection in between.
\<close>

definition ws_on_message ::
  "(string \<Rightarrow> jsval option) \<Rightarrow> env \<Rightarrow> (request \<Rightarrow> jsval promise) \<Rightarrow> string \<Rightarrow> session
     \<Rightarrow> unit promise \<times> session" where
  "ws_on_message parse e post data s =
     (case message_begin parse e post data s of
        (Returned, s') \<Rightarrow> (Fulfilled (), s')
      | (Awaiting agent, s') \<Rightarrow> prompt_resume agent s')"

text \<open>Frames handled one after the other, each handler run to its end.\<close>

fun ws_on_messages ::
  "(string \<Rightarrow> jsval option) \<Rightarrow> env \<Rightarrow> (request \<Rightarrow> jsval promise) \<Rightarrow> string list \<Rightarrow> session
     \<Rightarrow> unit promise \<times> session" where
  "ws_on_messages parse e post [] s = (Fulfilled (), s)"
| "ws_on_messages parse e post (data # rest) s =
     (case ws_on_message parse e post data s of
        (Fulfilled u, s') \<Rightarrow> ws_on_messages parse e post rest s'
      | (Pending, s') \<Rightarrow> (Pending, s')
      | (Rejected err, s') \<Rightarrow> (Rejected err, s'))"

section \<open>The connection as a step function\<close>

text \<open>
  Handlers overlap: one run is suspended at its \<^verbatim>\<open>await\<close> while the event loop delivers
  further frames to new runs. The state of the connection is the session together with
  \<^item> the calls of \<^verbatim>\<open>axios.post\<close> that have not settled, numbered in the order they were
    started, each with a handler waiting for it;
  \<^item> the number of calls started;
  \<^item> the handlers suspended on a promise that is already settled (the endpoint is not
    configured), in the order they will resume.

  An event is
  \<^item> an inbound frame: a new run of the handler, up to its return or its \<^verbatim>\<open>await\<close>;
  \<^item> the microtasks at the end of a turn of the event loop: the handlers whose promise is
    settled resume, in order (frames delivered in one turn come before them);
  \<^item> the settling of an outstanding call with the outcome of its \<^verbatim>\<open>axios.post\<close> promise,
    in a turn of its own: the handlers that were ready resume first, then
    \<^verbatim>\<open>callLangflowAgent\<close> and its handler run to their ends;
  \<^item> the socket leaving the state \<^verbatim>\<open>OPEN\<close>;
  \<^item> the \<^verbatim>\<open>close\<close> event, which \<^verbatim>\<open>ws.on('close', ...)\<close> logs.
\<close>

record relay =
  sess :: session
  inflight :: "nat list"
  started :: nat
  ready :: "jsval promise list"

datatype event = Frame string | Microtasks | Settle nat "jsval promise" | Closing | Close

definition hung :: "request \<Rightarrow> jsval promise" where
  "hung req = Pending"

definition relay_drain :: "relay \<Rightarrow> relay" where
  "relay_drain r =
     r\<lparr>sess := fold (\<lambda>agent s. snd (prompt_resume agent s)) (ready r) (sess r),
       ready := []\<rparr>"

fun relay_step :: "(string \<Rightarrow> jsval option) \<Rightarrow> env \<Rightarrow> event \<Rightarrow> relay \<Rightarrow> relay" where
  "relay_step parse e (Frame data) r =
     (case message_begin parse e hung data (sess r) of
        (Returned, s') \<Rightarrow> r\<lparr>sess := s'\<rparr>
      | (Awaiting agent, s') \<Rightarrow>
          if agent = Pending
          then r\<lparr>sess := s', inflight := inflight r @ [started r], started := Suc (started r)\<rparr>
          else r\<lparr>sess := s', ready := ready r @ [agent]\<rparr>)"
| "relay_step parse e Microtasks r = relay_drain r"
| "relay_step parse e (Settle i response) r =
     (if i \<in> set (inflight r) \<and> response \<noteq> Pending
      then (let r1 = relay_drain r;
                agent = agent_resume response (console (sess r1))
            in r1\<lparr>sess := snd (prompt_resume (fst agent) ((sess r1)\<lparr>console := snd agent\<rparr>)),
                  inflight := removeAll i (inflight r1)\<rparr>)
      else r)"
| "relay_step parse e Closing r = r\<lparr>sess := (sess r)\<lparr>ws_closed := True\<rparr>\<rparr>"
| "relay_step parse e Close r =
     r\<lparr>sess := (console_log LogDisconnected (sess r))\<lparr>ws_closed := True\<rparr>\<rparr>"

definition relay_run ::
  "(string \<Rightarrow> jsval option) \<Rightarrow> env \<Rightarrow> event list \<Rightarrow> relay \<Rightarrow> relay" where
  "relay_run parse e events r = fold (relay_step parse e) events r"

text \<open>The state after \<^verbatim>\<open>wss.on('connection', ...)\<close> has run.\<close>

definition new_connection :: relay where
  "new_connection =
     \<lparr>sess = \<lparr>outbound = [], console = [LogConnected], ws_closed = False\<rparr>,
      inflight = [], started = 0, ready = []\<rparr>"

section \<open>The voice webhook\<close>

text \<open>
  \<^verbatim>\<open>app.post('/voice', ...)\<close>: the attributes given to \<^verbatim>\<open>connect.conversationRelay\<close>,
  inside the \<^verbatim>\<open>Connect\<close> verb of a new \<^verbatim>\<open>VoiceResponse\<close>, sent as \<^verbatim>\<open>text/xml\<close>.
  \<^verbatim>\<open>req.get('host')\<close> is \<^verbatim>\<open>undefined\<close> when the request has no Host header, and the
  template literal then renders it as \<^verbatim>\<open>undefined\<close>.
\<close>

record conversationRelay =
  url :: string
  welcomeGreeting :: string
  language :: string

datatype twiml = VoiceResponse "twiml list" | Connect "twiml list" | ConversationRelay conversationRelay

record http_response =
  res_type :: string
  res_send :: twiml

definition template :: "string option \<Rightarrow> string" where
  "template v = (case v of None \<Rightarrow> ''undefined'' | Some s \<Rightarrow> s)"

definition greeting :: string where
  "greeting = ''Hello! I'm P, the event MC. How can I help you today?''"

definition voice :: "string option \<Rightarrow> http_response" where
  "voice host =
     \<lparr>res_type = ''text/xml'',
      res_send = VoiceResponse [Connect [ConversationRelay
        \<lparr>url = ''wss://'' @ template host @ ''/websocket'',
         welcomeGreeting = greeting,
         language = ''en-US''\<rparr>]]\<rparr>"

section \<open>Example frames, environments and backends\<close>

text \<open>
  A stand-in for \<^verbatim>\<open>JSON.parse\<close> that knows the frames of the examples; on every other
  text, the truncated frame among them, it throws.
\<close>

definition parse_sample :: "string \<Rightarrow> jsval option" where
  \<open>parse_sample data =
     (if data = ''{"type":"setup"}'' then Some (JObj [(''type'', JStr ''setup'')])
      else if data = ''{"type":"prompt","voicePrompt":"What time is the keynote?"}'' then
        Some (JObj [(''type'', JStr ''prompt''),
                    (''voicePrompt'', JStr ''What time is the keynote?'')])
      else if data = ''{"type":"prompt","voicePrompt":"Where is lunch?"}'' then
        Some (JObj [(''type'', JStr ''prompt''), (''voicePrompt'', JStr ''Where is lunch?'')])
      else if data = ''{"type":"interrupt"}'' then Some (JObj [(''type'', JStr ''interrupt'')])
      else if data = ''{"type":"dtmf","digit":"1"}'' then
        Some (JObj [(''type'', JStr ''dtmf''), (''digit'', JStr ''1'')])
      else if data = ''null'' then Some JNull
      else if data = ''{"type":'' then None
      else None)\<close>

definition keynote_frame :: string where
  \<open>keynote_frame = ''{"type":"prompt","voicePrompt":"What time is the keynote?"}''\<close>

definition lunch_frame :: string where
  \<open>lunch_frame = ''{"type":"prompt","voicePrompt":"Where is lunch?"}''\<close>

definition setup_frame :: string where
  \<open>setup_frame = ''{"type":"setup"}''\<close>

definition truncated_frame :: string where
  \<open>truncated_frame = ''{"type":''\<close>

definition dtmf_frame :: string where
  \<open>dtmf_frame = ''{"type":"dtmf","digit":"1"}''\<close>

definition env_sample :: env where
  "env_sample =
     \<lparr>LANGFLOW_URL = Some ''http://localhost:7860/api/v1/run/emcee'',
      LANGFLOW_API_KEY = Some ''sk-test''\<rparr>"

definition env_unconfigured :: env where
  "env_unconfigured = \<lparr>LANGFLOW_URL = None, LANGFLOW_API_KEY = None\<rparr>"

definition answers :: "jsval \<Rightarrow> request \<Rightarrow> jsval promise" where
  "answers body req = Fulfilled body"

definition fails :: "http_failure \<Rightarrow> request \<Rightarrow> jsval promise" where
  "fails f req = Rejected (HttpError f)"

text \<open>The body \<^verbatim>\<open>{outputs:[{outputs:[{results:{message:{text: t}}}]}]}\<close>.\<close>

definition nested_body :: "jsval \<Rightarrow> jsval" where
  "nested_body t =
     JObj [(''outputs'', JArr [JObj [(''outputs'', JArr [JObj [(''results'',
       JObj [(''message'', JObj [(''text'', t)])])]])]])]"

definition open_session :: session where
  "open_session = \<lparr>outbound = [], console = [], ws_closed = False\<rparr>"

section \<open>Facts about the definitions\<close>

lemma nested_text_nested_body: "nested_text (nested_body t) = t"
  by (simp add: nested_text_def nested_body_def)

lemma agent_resume_Fulfilled:
  "agent_resume (Fulfilled b) out =
     (Fulfilled (extract_reply b), out @ [LogAgentResponse (extract_reply b)])"
  by (simp add: agent_resume_def Let_def)

lemma agent_resume_Rejected:
  "agent_resume (Rejected err) out = (Fulfilled (JStr apology), out @ [LogAgentError err])"
  by (simp add: agent_resume_def agent_catch_def)

lemma agent_resume_Pending: "agent_resume Pending out = (Pending, out)"
  by (simp add: agent_resume_def)

lemma agent_resume_not_Rejected: "fst (agent_resume p out) \<noteq> Rejected err"
  by (cases p) (simp_all add: agent_resume_Fulfilled agent_resume_Rejected agent_resume_Pending)

lemma callLangflowAgent_unconfigured:
  "agent_request e m = Inl err \<Longrightarrow>
     callLangflowAgent e post m out = (Fulfilled (JStr apology), out @ [LogAgentError err])"
  by (simp add: callLangflowAgent_def agent_catch_def)

lemma callLangflowAgent_configured:
  "agent_request e m = Inr req \<Longrightarrow>
     callLangflowAgent e post m out = agent_resume (post req) (out @ [LogCalling m])"
  by (simp add: callLangflowAgent_def)

lemma callLangflowAgent_not_Rejected: "fst (callLangflowAgent e post m out) \<noteq> Rejected err"
proof (cases "agent_request e m")
  case (Inl a)
  then show ?thesis by (simp add: callLangflowAgent_unconfigured)
next
  case (Inr req)
  then show ?thesis by (simp add: callLangflowAgent_configured agent_resume_not_Rejected)
qed

lemma get_prop_string_object:
  "get_prop m name = Inr (JStr x) \<Longrightarrow> get_prop m name' = Inr (opt_prop m name')"
  by (cases m) (simp_all split: option.splits)

lemma didnt_understand_nonempty: "didnt_understand \<noteq> []"
  by (simp add: didnt_understand_def)

lemma apology_nonempty: "apology \<noteq> []"
  by (simp add: apology_def)

lemma truthy_extract_reply: "truthy (extract_reply b)"
  by (simp add: extract_reply_def js_or_def didnt_understand_nonempty)

lemma truthy_defined: "truthy v \<Longrightarrow> v \<noteq> JUndefined"
  by auto

lemma JSON_stringify_response_message:
  "v \<noteq> JUndefined \<Longrightarrow>
     JSON_stringify (response_message v) =
       JObj [(''type'', JStr ''text''), (''token'', JSON_stringify v),
             (''last'', JBool True), (''interruptible'', JBool True)]"
  by (simp add: response_message_def)

lemma prompt_resume_Fulfilled:
  "prompt_resume (Fulfilled reply) s =
     (Fulfilled (),
      ws_send (JSON_stringify (response_message reply))
        (console_log (LogSending (JSON_stringify (response_message reply))) s))"
  by (simp add: prompt_resume_def Let_def)

lemma prompt_resume_Pending: "prompt_resume Pending s = (Pending, s)"
  by (simp add: prompt_resume_def)

lemma prompt_resume_Rejected:
  "prompt_resume (Rejected err) s = (Fulfilled (), console_log (LogMessageError err) s)"
  by (simp add: prompt_resume_def message_catch_def)

lemma prompt_resume_not_Rejected: "fst (prompt_resume agent s) \<noteq> Rejected err"
  by (cases agent)
    (simp_all add: prompt_resume_Fulfilled prompt_resume_Pending prompt_resume_Rejected)

lemma ws_closed_prompt_resume: "ws_closed (snd (prompt_resume agent s)) = ws_closed s"
  by (cases agent)
    (simp_all add: prompt_resume_Fulfilled prompt_resume_Pending prompt_resume_Rejected
      ws_send_def console_log_def)

lemma outbound_prompt_resume_closed:
  "ws_closed s \<Longrightarrow> outbound (snd (prompt_resume agent s)) = outbound s"
  by (cases agent)
    (simp_all add: prompt_resume_Fulfilled prompt_resume_Pending prompt_resume_Rejected
      ws_send_def console_log_def)

lemma outbound_prompt_resume_open:
  "\<not> ws_closed s \<Longrightarrow>
     outbound (snd (prompt_resume (Fulfilled reply) s)) =
       outbound s @ [JSON_stringify (response_message reply)]"
  by (simp add: prompt_resume_Fulfilled ws_send_def console_log_def)

lemma message_begin_prompt:
  assumes "parse data = Some message"
    and "get_prop message ''type'' = Inr (JStr ''prompt'')"
  shows "message_begin parse e post data s =
     (Awaiting (fst (callLangflowAgent e post (opt_prop message ''voicePrompt'')
        (console s @ [LogReceived (JSON_stringify message),
                      LogUserSaid (opt_prop message ''voicePrompt'')]))),
      s\<lparr>console := snd (callLangflowAgent e post (opt_prop message ''voicePrompt'')
        (console s @ [LogReceived (JSON_stringify message),
                      LogUserSaid (opt_prop message ''voicePrompt'')]))\<rparr>)"
  using assms get_prop_string_object[OF assms(2), of "''voicePrompt''"]
  by (simp add: message_begin_def Let_def console_log_def)

lemma message_begin_setup:
  assumes "parse data = Some message" and "get_prop message ''type'' = Inr (JStr ''setup'')"
  shows "message_begin parse e post data s =
     (Returned, s\<lparr>console := console s @ [LogReceived (JSON_stringify message), LogSetup]\<rparr>)"
  using assms by (simp add: message_begin_def console_log_def)

lemma ws_on_message_prompt:
  assumes "parse data = Some message"
    and "get_prop message ''type'' = Inr (JStr ''prompt'')"
  shows "ws_on_message parse e post data s =
     prompt_resume
       (fst (callLangflowAgent e post (opt_prop message ''voicePrompt'')
          (console s @ [LogReceived (JSON_stringify message),
                        LogUserSaid (opt_prop message ''voicePrompt'')])))
       (s\<lparr>console := snd (callLangflowAgent e post (opt_prop message ''voicePrompt'')
          (console s @ [LogReceived (JSON_stringify message),
                        LogUserSaid (opt_prop message ''voicePrompt'')]))\<rparr>)"
  by (simp add: ws_on_message_def
      message_begin_prompt[where parse = parse and data = data, OF assms])

lemma ws_on_message_setup:
  assumes "parse data = Some message" and "get_prop message ''type'' = Inr (JStr ''setup'')"
  shows "ws_on_message parse e post data s =
     (Fulfilled (),
      s\<lparr>console := console s @ [LogReceived (JSON_stringify message), LogSetup]\<rparr>)"
  by (simp add: ws_on_message_def
      message_begin_setup[where parse = parse and data = data, OF assms])

lemma ws_on_message_not_Rejected: "fst (ws_on_message parse e post data s) \<noteq> Rejected err"
  by (cases "message_begin parse e post data s")
    (simp add: ws_on_message_def prompt_resume_not_Rejected split: progress.splits)

lemma message_nested_body: "opt_prop (nested_body t) ''message'' = JUndefined"
  by (simp add: nested_body_def)

lemma extract_reply_nested:
  "truthy (nested_text b) \<Longrightarrow> extract_reply b = nested_text b"
  by (simp add: extract_reply_def js_or_def)

lemma extract_reply_message:
  "\<not> truthy (nested_text b) \<Longrightarrow> truthy (opt_prop b ''message'') \<Longrightarrow>
     extract_reply b = opt_prop b ''message''"
  by (simp add: extract_reply_def js_or_def)

lemma extract_reply_string_body: "extract_reply (JStr text) = JStr didnt_understand"
  by (simp add: extract_reply_def nested_text_def js_or_def)

lemma extract_reply_fallback:
  "\<not> truthy (nested_text b) \<Longrightarrow> \<not> truthy (opt_prop b ''message'') \<Longrightarrow>
     extract_reply b = JStr didnt_understand"
  by (simp add: extract_reply_def js_or_def)

lemma extract_reply_message_only:
  "truthy v \<Longrightarrow> extract_reply (JObj [(''message'', v)]) = v"
  by (simp add: extract_reply_def nested_text_def js_or_def)

lemma agent_request_configured:
  assumes "LANGFLOW_URL e = Some langflowUrl" and "langflowUrl \<noteq> []"
  shows "agent_request e m =
     Inr \<lparr>req_url = langflowUrl, req_payload = payload m,
          req_config = [(''headers'', JObj (headers (LANGFLOW_API_KEY e)))]\<rparr>"
  using assms by (simp add: agent_request_def)

lemma relay_drain_Nil: "ready r = [] \<Longrightarrow> relay_drain r = r"
  by (simp add: relay_drain_def)

lemma relay_drain_fields:
  "inflight (relay_drain r) = inflight r"
  "started (relay_drain r) = started r"
  "ready (relay_drain r) = []"
  by (simp_all add: relay_drain_def)

lemma ws_closed_fold_resume:
  "ws_closed (fold (\<lambda>agent s. snd (prompt_resume agent s)) agents s) = ws_closed s"
  by (induction agents arbitrary: s) (simp_all add: ws_closed_prompt_resume)

lemma outbound_fold_resume_closed:
  "ws_closed s \<Longrightarrow>
     outbound (fold (\<lambda>agent s. snd (prompt_resume agent s)) agents s) = outbound s"
  by (induction agents arbitrary: s)
    (simp_all add: ws_closed_prompt_resume outbound_prompt_resume_closed)

lemma ws_closed_relay_drain: "ws_closed (sess (relay_drain r)) = ws_closed (sess r)"
  by (simp add: relay_drain_def ws_closed_fold_resume)

lemma outbound_relay_drain_closed:
  "ws_closed (sess r) \<Longrightarrow> outbound (sess (relay_drain r)) = outbound (sess r)"
  by (simp add: relay_drain_def outbound_fold_resume_closed)

lemma relay_step_setup:
  assumes "parse data = Some message" and "get_prop message ''type'' = Inr (JStr ''setup'')"
  shows "relay_step parse e (Frame data) r =
     r\<lparr>sess := (sess r)\<lparr>console := console (sess r) @
            [LogReceived (JSON_stringify message), LogSetup]\<rparr>\<rparr>"
  by (simp add: message_begin_setup[where parse = parse and data = data, OF assms])

lemma relay_step_prompt_request:
  assumes "parse data = Some message" and "get_prop message ''type'' = Inr (JStr ''prompt'')"
    and "agent_request e (opt_prop message ''voicePrompt'') = Inr req"
  shows "relay_step parse e (Frame data) r =
     r\<lparr>sess := (sess r)\<lparr>console := console (sess r) @
              [LogReceived (JSON_stringify message),
               LogUserSaid (opt_prop message ''voicePrompt''),
               LogCalling (opt_prop message ''voicePrompt'')]\<rparr>,
       inflight := inflight r @ [started r],
       started := Suc (started r)\<rparr>"
  using assms(3)
  by (simp add: message_begin_prompt[where parse = parse and data = data, OF assms(1,2)]
      callLangflowAgent_configured hung_def agent_resume_Pending)

lemma relay_step_prompt:
  assumes "parse data = Some message" and "get_prop message ''type'' = Inr (JStr ''prompt'')"
    and "LANGFLOW_URL e = Some langflowUrl" and "langflowUrl \<noteq> []"
  shows "relay_step parse e (Frame data) r =
     r\<lparr>sess := (sess r)\<lparr>console := console (sess r) @
              [LogReceived (JSON_stringify message),
               LogUserSaid (opt_prop message ''voicePrompt''),
               LogCalling (opt_prop message ''voicePrompt'')]\<rparr>,
       inflight := inflight r @ [started r],
       started := Suc (started r)\<rparr>"
  using relay_step_prompt_request[where parse = parse and data = data, OF assms(1,2)
      agent_request_configured[OF assms(3,4)]]
  by simp

lemma relay_step_prompt_unconfigured:
  assumes "parse data = Some message" and "get_prop message ''type'' = Inr (JStr ''prompt'')"
    and "agent_request e (opt_prop message ''voicePrompt'') = Inl err"
  shows "relay_step parse e (Frame data) r =
     r\<lparr>sess := (sess r)\<lparr>console := console (sess r) @
              [LogReceived (JSON_stringify message),
               LogUserSaid (opt_prop message ''voicePrompt''),
               LogAgentError err]\<rparr>,
       ready := ready r @ [Fulfilled (JStr apology)]\<rparr>"
  using assms(3)
  by (simp add: message_begin_prompt[where parse = parse and data = data, OF assms(1,2)]
      callLangflowAgent_unconfigured)

lemma relay_run_Cons:
  "relay_run parse e (ev # evs) r = relay_run parse e evs (relay_step parse e ev r)"
  by (simp add: relay_run_def)

lemma relay_run_Nil: "relay_run parse e [] r = r"
  by (simp add: relay_run_def)

lemma relay_run_append:
  "relay_run parse e (evs @ evs') r = relay_run parse e evs' (relay_run parse e evs r)"
  by (simp add: relay_run_def)

lemma settled_reply_defined:
  assumes "response \<noteq> Pending"
  shows "fst (agent_resume response out) =
       Fulfilled (case response of Fulfilled b \<Rightarrow> extract_reply b | _ \<Rightarrow> JStr apology) \<and>
     (case response of Fulfilled b \<Rightarrow> extract_reply b | _ \<Rightarrow> JStr apology) \<noteq> JUndefined"
proof (cases response)
  case Pending
  with assms show ?thesis by simp
next
  case (Fulfilled b)
  with truthy_defined[OF truthy_extract_reply, of b] show ?thesis
    by (simp add: agent_resume_Fulfilled)
next
  case (Rejected err)
  then show ?thesis by (simp add: agent_resume_Rejected)
qed

lemma relay_step_settle:
  assumes "i \<in> set (inflight r)" and "response \<noteq> Pending"
  shows "\<not> ws_closed (sess r) \<Longrightarrow>
           outbound (sess (relay_step parse e (Settle i response) r)) =
             outbound (sess (relay_drain r)) @
               [JObj [(''type'', JStr ''text''),
                      (''token'', JSON_stringify
                         (case response of Fulfilled b \<Rightarrow> extract_reply b | _ \<Rightarrow> JStr apology)),
                      (''last'', JBool True), (''interruptible'', JBool True)]]"
    and "ws_closed (sess r) \<Longrightarrow>
           outbound (sess (relay_step parse e (Settle i response) r)) = outbound (sess r)"
    and "inflight (relay_step parse e (Settle i response) r) = removeAll i (inflight r)"
    and "ws_closed (sess (relay_step parse e (Settle i response) r)) = ws_closed (sess r)"
    and "started (relay_step parse e (Settle i response) r) = started r"
    and "ready (relay_step parse e (Settle i response) r) = []"
proof -
  let ?reply = "case response of Fulfilled b \<Rightarrow> extract_reply b | _ \<Rightarrow> JStr apology"
  let ?r1 = "relay_drain r"
  obtain out where a: "agent_resume response (console (sess ?r1)) = (Fulfilled ?reply, out)"
    using settled_reply_defined[OF assms(2), of "console (sess ?r1)"]
    by (cases "agent_resume response (console (sess ?r1))") simp
  have d: "?reply \<noteq> JUndefined"
    using settled_reply_defined[OF assms(2)] by blast
  have st: "relay_step parse e (Settle i response) r =
      ?r1\<lparr>sess := snd (prompt_resume (Fulfilled ?reply) ((sess ?r1)\<lparr>console := out\<rparr>)),
           inflight := removeAll i (inflight ?r1)\<rparr>"
    using assms by (simp add: a Let_def)
  show "inflight (relay_step parse e (Settle i response) r) = removeAll i (inflight r)"
    and "started (relay_step parse e (Settle i response) r) = started r"
    and "ready (relay_step parse e (Settle i response) r) = []"
    unfolding st by (simp_all add: relay_drain_fields)
  show "ws_closed (sess (relay_step parse e (Settle i response) r)) = ws_closed (sess r)"
    unfolding st by (simp add: ws_closed_prompt_resume ws_closed_relay_drain)
  show "outbound (sess (relay_step parse e (Settle i response) r)) =
      outbound (sess ?r1) @
        [JObj [(''type'', JStr ''text''), (''token'', JSON_stringify ?reply),
               (''last'', JBool True), (''interruptible'', JBool True)]]"
    if "\<not> ws_closed (sess r)"
    unfolding st using that d
    by (simp add: outbound_prompt_resume_open ws_closed_relay_drain
        JSON_stringify_response_message)
  show "outbound (sess (relay_step parse e (Settle i response) r)) = outbound (sess r)"
    if "ws_closed (sess r)"
    unfolding st using that
    by (simp add: outbound_prompt_resume_closed ws_closed_relay_drain
        outbound_relay_drain_closed)
qed

lemma upt_add_Suc: "[a..<a + Suc n] = a # [Suc a..<Suc a + n]"
  using upt_conv_Cons[of a "a + Suc n"] by simp

lemma relay_step_prompt_fields:
  assumes "parse data = Some message" and "get_prop message ''type'' = Inr (JStr ''prompt'')"
    and "LANGFLOW_URL e = Some langflowUrl" and "langflowUrl \<noteq> []"
  shows "inflight (relay_step parse e (Frame data) r) = inflight r @ [started r]"
    and "started (relay_step parse e (Frame data) r) = Suc (started r)"
    and "outbound (sess (relay_step parse e (Frame data) r)) = outbound (sess r)"
  by (simp_all add: relay_step_prompt[where parse = parse and data = data, OF assms]
      del: relay_step.simps)

lemma parse_sample_keynote:
  "parse_sample keynote_frame =
     Some (JObj [(''type'', JStr ''prompt''), (''voicePrompt'', JStr ''What time is the keynote?'')])"
  by (simp add: parse_sample_def keynote_frame_def)

lemma parse_sample_lunch:
  "parse_sample lunch_frame =
     Some (JObj [(''type'', JStr ''prompt''), (''voicePrompt'', JStr ''Where is lunch?'')])"
  by (simp add: parse_sample_def lunch_frame_def)

lemma env_sample_url: "LANGFLOW_URL env_sample = Some ''http://localhost:7860/api/v1/run/emcee''"
  by (simp add: env_sample_def)

lemma keynote_state:
  "relay_step parse_sample env_sample (Frame keynote_frame) new_connection =
      \<lparr>sess = \<lparr>outbound = [],
               console =
                 [LogConnected,
                  LogReceived (JObj [(''type'', JStr ''prompt''),
                    (''voicePrompt'', JStr ''What time is the keynote?'')]),
                  LogUserSaid (JStr ''What time is the keynote?''),
                  LogCalling (JStr ''What time is the keynote?'')],
               ws_closed = False\<rparr>,
        inflight = [0], started = 1, ready = []\<rparr>"
  by (simp add: new_connection_def
      relay_step_prompt[where parse = parse_sample and e = env_sample and data = keynote_frame,
        OF parse_sample_keynote _ env_sample_url]
      del: relay_step.simps)

lemma two_prompts_state:
  "relay_run parse_sample env_sample [Frame keynote_frame, Frame lunch_frame] new_connection =
      \<lparr>sess = \<lparr>outbound = [],
               console =
                 [LogConnected,
                  LogReceived (JObj [(''type'', JStr ''prompt''),
                    (''voicePrompt'', JStr ''What time is the keynote?'')]),
                  LogUserSaid (JStr ''What time is the keynote?''),
                  LogCalling (JStr ''What time is the keynote?''),
                  LogReceived (JObj [(''type'', JStr ''prompt''),
                    (''voicePrompt'', JStr ''Where is lunch?'')]),
                  LogUserSaid (JStr ''Where is lunch?''),
                  LogCalling (JStr ''Where is lunch?'')],
               ws_closed = False\<rparr>,
        inflight = [0, 1], started = 2, ready = []\<rparr>"
  by (simp add: relay_run_Cons relay_run_Nil keynote_state
      relay_step_prompt[where parse = parse_sample and e = env_sample and data = lunch_frame,
        OF parse_sample_lunch _ env_sample_url]
      del: relay_step.simps)

text \<open>
  The step function agrees with the handler run to its end: with the endpoint configured,
  a prompt frame followed by the settling of its call; with the endpoint not configured,
  a prompt frame followed by the microtasks.
\<close>

lemma relay_agrees_with_handler:
  assumes "parse data = Some message" and "get_prop message ''type'' = Inr (JStr ''prompt'')"
    and "agent_request e (opt_prop message ''voicePrompt'') = Inr req"
    and "post req = response" and "response \<noteq> Pending" and "ready r = []"
  shows "sess (relay_step parse e (Settle (started r) response)
                 (relay_step parse e (Frame data) r)) =
         snd (ws_on_message parse e post data (sess r))"
proof -
  let ?r = "relay_step parse e (Frame data) r"
  note f = relay_step_prompt_request[where parse = parse and data = data and r = r,
      OF assms(1,2,3)]
  have dr: "relay_drain ?r = ?r"
    using assms(6) by (simp add: f relay_drain_def del: relay_step.simps)
  have h: "ws_on_message parse e post data (sess r) =
      prompt_resume
        (fst (agent_resume response (console (sess ?r))))
        ((sess ?r)\<lparr>console := snd (agent_resume response (console (sess ?r)))\<rparr>)"
    using assms(3,4)
    by (simp add: ws_on_message_prompt[where parse = parse and data = data, OF assms(1,2)]
        callLangflowAgent_configured f del: relay_step.simps)
  have i: "started r \<in> set (inflight ?r)"
    by (simp add: f del: relay_step.simps)
  show ?thesis
    unfolding h
    using i assms(5)
    by (simp add: dr Let_def del: relay_step.simps(1))
qed

lemma relay_agrees_with_handler_unconfigured:
  assumes "parse data = Some message" and "get_prop message ''type'' = Inr (JStr ''prompt'')"
    and "agent_request e (opt_prop message ''voicePrompt'') = Inl err"
    and "ready r = []"
  shows "sess (relay_step parse e Microtasks (relay_step parse e (Frame data) r)) =
         snd (ws_on_message parse e post data (sess r))"
  using assms(3,4)
  by (simp add: relay_step_prompt_unconfigured[where parse = parse and data = data, OF assms(1,2,3)]
      ws_on_message_prompt[where parse = parse and data = data, OF assms(1,2)]
      callLangflowAgent_unconfigured relay_drain_def
      del: relay_step.simps(1))


section \<open>The claims\<close>

text \<open>
  C1, as stated, fails in two ways. The handler sends after its \<^verbatim>\<open>await\<close>: when the
  socket closes between the prompt frame and the answer of the agent, the call succeeds
  and no frame is sent. And the frame is sent as \<^verbatim>\<open>JSON.stringify(responseMessage)\<close>:
  for the body \<^verbatim>\<open>{"message":1e999}\<close> the agent client returns \<^verbatim>\<open>Infinity\<close> and the token
  sent is \<^verbatim>\<open>null\<close>.
\<close>

theorem prompt_reply_counterexample:
  "outbound (sess (relay_run parse_sample env_sample
      [Frame keynote_frame, Close,
       Settle 0 (Fulfilled (JObj [(''message'', JStr ''10:30 AM'')]))]
      new_connection)) = [] \<and>
   fst (callLangflowAgent env_sample (answers (JObj [(''message'', JNum (Infinity True))]))
          (JStr ''What time is the keynote?'') []) = Fulfilled (JNum (Infinity True)) \<and>
   outbound (sess (relay_run parse_sample env_sample
      [Frame keynote_frame,
       Settle 0 (Fulfilled (JObj [(''message'', JNum (Infinity True))]))]
      new_connection)) =
     [JObj [(''type'', JStr ''text''), (''token'', JNull),
            (''last'', JBool True), (''interruptible'', JBool True)]]"
proof -
  have x: "extract_reply (JObj [(''message'', JNum (Infinity True))]) = JNum (Infinity True)"
    by (simp add: extract_reply_message_only)
  have 1: "outbound (sess (relay_run parse_sample env_sample
      [Frame keynote_frame, Close,
       Settle 0 (Fulfilled (JObj [(''message'', JStr ''10:30 AM'')]))]
      new_connection)) = []"
    by (simp add: relay_run_Cons relay_run_Nil keynote_state relay_drain_def
        agent_resume_Fulfilled prompt_resume_Fulfilled ws_send_def console_log_def
        del: relay_step.simps(1))
  have 2: "fst (callLangflowAgent env_sample
      (answers (JObj [(''message'', JNum (Infinity True))]))
      (JStr ''What time is the keynote?'') []) = Fulfilled (JNum (Infinity True))"
    by (simp add: callLangflowAgent_def agent_request_def env_sample_def answers_def
        agent_resume_Fulfilled x)
  have 3: "outbound (sess (relay_run parse_sample env_sample
      [Frame keynote_frame,
       Settle 0 (Fulfilled (JObj [(''message'', JNum (Infinity True))]))]
      new_connection)) =
     [JObj [(''type'', JStr ''text''), (''token'', JNull),
            (''last'', JBool True), (''interruptible'', JBool True)]]"
    by (simp add: relay_run_Cons relay_run_Nil keynote_state relay_drain_def
        agent_resume_Fulfilled prompt_resume_Fulfilled ws_send_def console_log_def
        response_message_def x
        del: relay_step.simps(1))
  from 1 2 3 show ?thesis by blast
qed

text \<open>
  C1, amended. A frame of kind \<^verbatim>\<open>prompt\<close> arrives and the endpoint is configured: a call
  of the agent becomes outstanding and nothing is sent yet. When \<^verbatim>\<open>axios.post\<close> is
  fulfilled with a body, the agent client returns the reply extracted from the body, and
  when that call settles
  \<^item> on a socket that is still open, exactly one frame is sent for it (after the frames of
    the handlers that were ready to resume, if any): type \<^verbatim>\<open>text\<close>, \<^verbatim>\<open>last\<close> and
    \<^verbatim>\<open>interruptible\<close> true, and as token the reply as \<^verbatim>\<open>JSON.stringify\<close> writes it,
    which is the reply itself when the reply is a string;
  \<^item> on a socket that has closed meanwhile, nothing is sent.
\<close>

theorem prompt_reply_frame:
  assumes "parse data = Some message"
    and "get_prop message ''type'' = Inr (JStr ''prompt'')"
    and "agent_request e (opt_prop message ''voicePrompt'') = Inr req"
  shows "inflight (relay_step parse e (Frame data) r) = inflight r @ [started r] \<and>
         outbound (sess (relay_step parse e (Frame data) r)) = outbound (sess r) \<and>
         (\<forall>post out. post req = Fulfilled b \<longrightarrow>
            fst (callLangflowAgent e post (opt_prop message ''voicePrompt'') out) =
              Fulfilled (extract_reply b)) \<and>
         (\<forall>r'. started r \<in> set (inflight r') \<and> \<not> ws_closed (sess r') \<longrightarrow>
            outbound (sess (relay_step parse e (Settle (started r) (Fulfilled b)) r')) =
              outbound (sess (relay_drain r')) @
                [JObj [(''type'', JStr ''text''),
                       (''token'', JSON_stringify (extract_reply b)),
                       (''last'', JBool True), (''interruptible'', JBool True)]]) \<and>
         (\<forall>r'. started r \<in> set (inflight r') \<and> ws_closed (sess r') \<longrightarrow>
            outbound (sess (relay_step parse e (Settle (started r) (Fulfilled b)) r')) =
              outbound (sess r')) \<and>
         (\<forall>text. extract_reply b = JStr text \<longrightarrow> JSON_stringify (extract_reply b) = JStr text)"
proof -
  note f = relay_step_prompt_request[where parse = parse and data = data and r = r,
      OF assms]
  have 1: "inflight (relay_step parse e (Frame data) r) = inflight r @ [started r]"
    and 2: "outbound (sess (relay_step parse e (Frame data) r)) = outbound (sess r)"
    by (simp_all add: f del: relay_step.simps)
  have 3: "fst (callLangflowAgent e post (opt_prop message ''voicePrompt'') out) =
      Fulfilled (extract_reply b)" if "post req = Fulfilled b" for post out
    using that assms(3) by (simp add: callLangflowAgent_configured agent_resume_Fulfilled)
  have 4: "outbound (sess (relay_step parse e (Settle (started r) (Fulfilled b)) r')) =
      outbound (sess (relay_drain r')) @
        [JObj [(''type'', JStr ''text''), (''token'', JSON_stringify (extract_reply b)),
               (''last'', JBool True), (''interruptible'', JBool True)]]"
    if "started r \<in> set (inflight r')" "\<not> ws_closed (sess r')" for r'
    using relay_step_settle(1)[OF that(1) _ that(2), of "Fulfilled b" parse e] by simp
  have 5: "outbound (sess (relay_step parse e (Settle (started r) (Fulfilled b)) r')) =
      outbound (sess r')"
    if "started r \<in> set (inflight r')" "ws_closed (sess r')" for r'
    using relay_step_settle(2)[OF that(1) _ that(2), of "Fulfilled b" parse e] by simp
  have 6: "JSON_stringify (extract_reply b) = JStr t" if "extract_reply b = JStr t" for t
    using that by simp
  from 1 2 3 4 5 6 show ?thesis by blast
qed

theorem prompt_reply_frame_witness:
  "parse_sample keynote_frame =
     Some (JObj [(''type'', JStr ''prompt''), (''voicePrompt'', JStr ''What time is the keynote?'')]) \<and>
   inflight (relay_step parse_sample env_sample (Frame keynote_frame) new_connection) = [0] \<and>
   outbound (sess (relay_step parse_sample env_sample
      (Settle 0 (Fulfilled (JObj [(''message'', JStr ''10:30 AM'')])))
      (relay_step parse_sample env_sample (Frame keynote_frame) new_connection))) =
     [JObj [(''type'', JStr ''text''), (''token'', JStr ''10:30 AM''),
            (''last'', JBool True), (''interruptible'', JBool True)]]"
proof -
  let ?m = "JObj [(''type'', JStr ''prompt''), (''voicePrompt'', JStr ''What time is the keynote?'')]"
  let ?req = "\<lparr>req_url = ''http://localhost:7860/api/v1/run/emcee'',
              req_payload = payload (JStr ''What time is the keynote?''),
              req_config = [(''headers'', JObj (headers (Some ''sk-test'')))]\<rparr>"
  let ?r = "relay_step parse_sample env_sample (Frame keynote_frame) new_connection"
  have t: "get_prop ?m ''type'' = Inr (JStr ''prompt'')" by simp
  have q: "agent_request env_sample (opt_prop ?m ''voicePrompt'') = Inr ?req"
    by (simp add: agent_request_def env_sample_def)
  have x: "extract_reply (JObj [(''message'', JStr ''10:30 AM'')]) = JStr ''10:30 AM''"
    by (simp add: extract_reply_message_only)
  have s0: "started new_connection = 0" "inflight new_connection = []"
    by (simp_all add: new_connection_def)
  have k: "started new_connection \<in> set (inflight ?r) \<and> \<not> ws_closed (sess ?r)"
    by (simp add: keynote_state s0 del: relay_step.simps)
  have d: "relay_drain ?r = ?r"
    by (simp add: keynote_state relay_drain_def del: relay_step.simps)
  have o: "outbound (sess ?r) = []"
    by (simp add: keynote_state del: relay_step.simps)
  note inst = prompt_reply_frame[where parse = parse_sample and data = keynote_frame
      and e = env_sample and r = new_connection
      and b = "JObj [(''message'', JStr ''10:30 AM'')]",
      OF parse_sample_keynote t q]
  from inst have "inflight ?r = inflight new_connection @ [started new_connection]"
    by blast
  moreover from inst k have
    "outbound (sess (relay_step parse_sample env_sample
        (Settle (started new_connection) (Fulfilled (JObj [(''message'', JStr ''10:30 AM'')]))) ?r)) =
     outbound (sess (relay_drain ?r)) @
       [JObj [(''type'', JStr ''text''),
              (''token'', JSON_stringify (extract_reply (JObj [(''message'', JStr ''10:30 AM'')]))),
              (''last'', JBool True), (''interruptible'', JBool True)]]"
    by blast
  ultimately show ?thesis
    using parse_sample_keynote
    by (simp only: s0 d o x JSON_stringify.simps append_Nil simp_thms)
qed

text \<open>
  C2, as stated, fails for two of the failures it names. With the options the program
  passes, \<^verbatim>\<open>axios.post\<close> fulfils a response whose body is not JSON with the body as a
  string, and the function returns the "didn't understand" text, not the apology. And no
  timeout is set: against a backend that never answers the function never returns.
\<close>

theorem agent_failure_counterexample:
  "fst (callLangflowAgent env_sample (answers (JStr ''<html>502 Bad Gateway</html>''))
          (JStr ''Where is lunch?'') []) =
     Fulfilled (JStr ''I'm sorry, I didn't understand that. Could you please try again?'') \<and>
   fst (callLangflowAgent env_sample hung (JStr ''Where is lunch?'') []) = Pending"
proof -
  have r: "\<exists>req. agent_request env_sample (JStr ''Where is lunch?'') = Inr req"
    by (simp add: agent_request_def env_sample_def)
  then obtain req where q: "agent_request env_sample (JStr ''Where is lunch?'') = Inr req"
    by blast
  show ?thesis
    unfolding didnt_understand_def[symmetric]
    by (simp add: callLangflowAgent_configured[OF q] answers_def hung_def
        agent_resume_Fulfilled agent_resume_Pending extract_reply_string_body)
qed

text \<open>
  C2, amended. When the try block of \<^verbatim>\<open>callLangflowAgent\<close> throws, because
  \<^verbatim>\<open>LANGFLOW_URL\<close> is not configured or because \<^verbatim>\<open>axios.post\<close> rejects (unreachable
  endpoint, error status, any other error), the function returns the fixed apology text.
  When \<^verbatim>\<open>axios.post\<close> is fulfilled with a body that is a string (a body that is not
  JSON), it returns the "didn't understand" text; while \<^verbatim>\<open>axios.post\<close> is pending, it is
  pending. On no input at all is the promise of \<^verbatim>\<open>callLangflowAgent\<close> or of the message
  handler rejected: no exception reaches their callers.
\<close>

theorem agent_failure_gives_apology:
  "(agent_request e userMessage = Inl err \<or>
      (\<exists>req. agent_request e userMessage = Inr req \<and> post req = Rejected err) \<longrightarrow>
    fst (callLangflowAgent e post userMessage out) =
      Fulfilled (JStr ''I'm sorry, I'm having trouble processing your request right now. Please try again later.'')) \<and>
   ((\<exists>req text. agent_request e userMessage = Inr req \<and> post req = Fulfilled (JStr text)) \<longrightarrow>
    fst (callLangflowAgent e post userMessage out) =
      Fulfilled (JStr ''I'm sorry, I didn't understand that. Could you please try again?'')) \<and>
   ((\<exists>req. agent_request e userMessage = Inr req \<and> post req = Pending) \<longrightarrow>
    fst (callLangflowAgent e post userMessage out) = Pending) \<and>
   (\<forall>e' post' m out' err'. fst (callLangflowAgent e' post' m out') \<noteq> Rejected err') \<and>
   (\<forall>parse e' post' data s err'. fst (ws_on_message parse e' post' data s) \<noteq> Rejected err')"
proof -
  have 1: "fst (callLangflowAgent e post userMessage out) = Fulfilled (JStr apology)"
    if "agent_request e userMessage = Inl err \<or>
        (\<exists>req. agent_request e userMessage = Inr req \<and> post req = Rejected err)"
    using that
    by (auto simp add: callLangflowAgent_unconfigured callLangflowAgent_configured
        agent_resume_Rejected)
  have 2: "fst (callLangflowAgent e post userMessage out) = Fulfilled (JStr didnt_understand)"
    if "\<exists>req text. agent_request e userMessage = Inr req \<and> post req = Fulfilled (JStr text)"
    using that
    by (auto simp add: callLangflowAgent_configured agent_resume_Fulfilled
        extract_reply_string_body)
  have 3: "fst (callLangflowAgent e post userMessage out) = Pending"
    if "\<exists>req. agent_request e userMessage = Inr req \<and> post req = Pending"
    using that by (auto simp add: callLangflowAgent_configured agent_resume_Pending)
  show ?thesis
    unfolding didnt_understand_def[symmetric] apology_def[symmetric]
    using 1 2 3 callLangflowAgent_not_Rejected ws_on_message_not_Rejected by blast
qed

theorem agent_failure_gives_apology_witness:
  "agent_request env_unconfigured (JStr ''Where is lunch?'') =
      Inl (ConfigError ''LANGFLOW_URL not configured'') \<and>
   fst (callLangflowAgent env_unconfigured hung (JStr ''Where is lunch?'') []) =
      Fulfilled (JStr ''I'm sorry, I'm having trouble processing your request right now. Please try again later.'') \<and>
   (\<exists>req. agent_request env_sample (JStr ''Where is lunch?'') = Inr req \<and>
      fails (BadStatus 500) req = Rejected (HttpError (BadStatus 500)) \<and>
      answers (JStr ''Service Unavailable'') req = Fulfilled (JStr ''Service Unavailable'') \<and>
      hung req = Pending) \<and>
   fst (callLangflowAgent env_sample (fails (BadStatus 500)) (JStr ''Where is lunch?'') []) =
      Fulfilled (JStr ''I'm sorry, I'm having trouble processing your request right now. Please try again later.'') \<and>
   fst (callLangflowAgent env_sample (answers (JStr ''Service Unavailable''))
          (JStr ''Where is lunch?'') []) =
      Fulfilled (JStr ''I'm sorry, I didn't understand that. Could you please try again?'') \<and>
   fst (callLangflowAgent env_sample hung (JStr ''Where is lunch?'') []) = Pending"
proof -
  have a: "agent_request env_unconfigured (JStr ''Where is lunch?'') =
      Inl (ConfigError ''LANGFLOW_URL not configured'')"
    by (simp add: agent_request_def env_unconfigured_def)
  have b: "\<exists>req. agent_request env_sample (JStr ''Where is lunch?'') = Inr req \<and>
      fails (BadStatus 500) req = Rejected (HttpError (BadStatus 500)) \<and>
      answers (JStr ''Service Unavailable'') req = Fulfilled (JStr ''Service Unavailable'') \<and>
      hung req = Pending"
    by (simp add: agent_request_def env_sample_def fails_def answers_def hung_def)
  then obtain req where q: "agent_request env_sample (JStr ''Where is lunch?'') = Inr req"
      "fails (BadStatus 500) req = Rejected (HttpError (BadStatus 500))"
      "answers (JStr ''Service Unavailable'') req = Fulfilled (JStr ''Service Unavailable'')"
      "hung req = Pending"
    by blast
  have 1: "fst (callLangflowAgent env_unconfigured hung (JStr ''Where is lunch?'') []) =
      Fulfilled (JStr ''I'm sorry, I'm having trouble processing your request right now. Please try again later.'')"
    by (rule agent_failure_gives_apology[of env_unconfigured "JStr ''Where is lunch?''"
          "ConfigError ''LANGFLOW_URL not configured''" hung "[]", THEN conjunct1, THEN mp])
      (simp add: a)
  have 2: "fst (callLangflowAgent env_sample (fails (BadStatus 500)) (JStr ''Where is lunch?'') []) =
      Fulfilled (JStr ''I'm sorry, I'm having trouble processing your request right now. Please try again later.'')"
    by (rule agent_failure_gives_apology[of env_sample "JStr ''Where is lunch?''"
          "HttpError (BadStatus 500)" "fails (BadStatus 500)" "[]", THEN conjunct1, THEN mp])
      (simp add: q)
  have 3: "fst (callLangflowAgent env_sample (answers (JStr ''Service Unavailable''))
          (JStr ''Where is lunch?'') []) =
      Fulfilled (JStr ''I'm sorry, I didn't understand that. Could you please try again?'')"
    by (rule agent_failure_gives_apology[of env_sample "JStr ''Where is lunch?''"
          "HttpError (BadStatus 500)" "answers (JStr ''Service Unavailable'')" "[]",
          THEN conjunct2, THEN conjunct1, THEN mp])
      (simp add: q)
  have 4: "fst (callLangflowAgent env_sample hung (JStr ''Where is lunch?'') []) = Pending"
    by (rule agent_failure_gives_apology[of env_sample "JStr ''Where is lunch?''"
          "HttpError (BadStatus 500)" hung "[]",
          THEN conjunct2, THEN conjunct2, THEN conjunct1, THEN mp])
      (simp add: q)
  from a b 1 2 3 4 show ?thesis
    by (intro conjI)
qed


text \<open>
  C3, as stated, fails for the empty text: for the body
  \<^verbatim>\<open>{outputs:[{outputs:[{results:{message:{text:""}}}]}]}\<close> the function returns the
  "didn't understand" text, not the empty string.
\<close>

theorem extraction_empty_text_counterexample:
  "fst (callLangflowAgent env_sample (answers (nested_body (JStr ''''))) (JStr ''Where is lunch?'') [])
     = Fulfilled (JStr ''I'm sorry, I didn't understand that. Could you please try again?'') \<and>
   fst (callLangflowAgent env_sample (answers (nested_body (JStr ''''))) (JStr ''Where is lunch?'') [])
     \<noteq> Fulfilled (JStr '''')"
proof -
  have "extract_reply (nested_body (JStr '''')) = JStr didnt_understand"
    by (simp add: extract_reply_def nested_text_nested_body message_nested_body js_or_def)
  then show ?thesis
    by (simp add: callLangflowAgent_def agent_request_def env_sample_def answers_def
        agent_resume_Fulfilled didnt_understand_def)
qed

text \<open>
  C3, amended. With the endpoint configured and \<^verbatim>\<open>axios.post\<close> fulfilled with a body:
  for the body \<^verbatim>\<open>{outputs:[{outputs:[{results:{message:{text:X}}}]}]}\<close> with a
  non-empty string \<open>X\<close> the function returns \<open>X\<close>; for the body \<^verbatim>\<open>{message:Y}\<close>
  with a non-empty string \<open>Y\<close> it returns \<open>Y\<close>; when the nested text and the top-level
  message are both absent (as in \<^verbatim>\<open>{}\<close>) it returns the "didn't understand" text.
\<close>

theorem extraction_chain:
  assumes "agent_request e userMessage = Inr req" and "post req = Fulfilled b"
  shows "(b = JObj [(''outputs'', JArr [JObj [(''outputs'', JArr [JObj [(''results'',
              JObj [(''message'', JObj [(''text'', JStr X)])])]])]])] \<and> X \<noteq> []
            \<longrightarrow> fst (callLangflowAgent e post userMessage out) = Fulfilled (JStr X)) \<and>
         (b = JObj [(''message'', JStr Y)] \<and> Y \<noteq> []
            \<longrightarrow> fst (callLangflowAgent e post userMessage out) = Fulfilled (JStr Y)) \<and>
         (nested_text b = JUndefined \<and> opt_prop b ''message'' = JUndefined
            \<longrightarrow> fst (callLangflowAgent e post userMessage out) =
                  Fulfilled (JStr ''I'm sorry, I didn't understand that. Could you please try again?''))"
proof -
  have r: "fst (callLangflowAgent e post userMessage out) = Fulfilled (extract_reply b)"
    using assms by (simp add: callLangflowAgent_configured agent_resume_Fulfilled)
  have 1: "extract_reply (nested_body (JStr X)) = JStr X" if "X \<noteq> []"
    using that by (simp add: extract_reply_nested nested_text_nested_body)
  have 2: "extract_reply (JObj [(''message'', JStr Y)]) = JStr Y" if "Y \<noteq> []"
    using that by (simp add: extract_reply_def nested_text_def js_or_def)
  have 3: "extract_reply b = JStr didnt_understand"
    if "nested_text b = JUndefined" "opt_prop b ''message'' = JUndefined"
    using that by (simp add: extract_reply_fallback)
  show ?thesis
    unfolding didnt_understand_def[symmetric] nested_body_def[symmetric] r
    using 1 2 3 by blast
qed

theorem extraction_chain_witness:
  "fst (callLangflowAgent env_sample
         (answers (JObj [(''outputs'', JArr [JObj [(''outputs'', JArr [JObj [(''results'',
            JObj [(''message'', JObj [(''text'', JStr ''The keynote is at 10:30 AM'')])])]])]])]))
         (JStr ''What time is the keynote?'') [])
     = Fulfilled (JStr ''The keynote is at 10:30 AM'') \<and>
   fst (callLangflowAgent env_sample (answers (JObj [(''message'', JStr ''10:30 AM'')]))
         (JStr ''What time is the keynote?'') [])
     = Fulfilled (JStr ''10:30 AM'') \<and>
   fst (callLangflowAgent env_sample (answers (JObj [])) (JStr ''What time is the keynote?'') [])
     = Fulfilled (JStr ''I'm sorry, I didn't understand that. Could you please try again?'')"
proof -
  let ?m = "JStr ''What time is the keynote?''"
  let ?req = "\<lparr>req_url = ''http://localhost:7860/api/v1/run/emcee'',
              req_payload = payload ?m,
              req_config = [(''headers'', JObj (headers (Some ''sk-test'')))]\<rparr>"
  have r: "agent_request env_sample ?m = Inr ?req"
    by (simp add: agent_request_def env_sample_def)
  have f: "answers b ?req = Fulfilled b" for b
    by (simp add: answers_def)
  have n: "nested_text (JObj []) = JUndefined \<and> opt_prop (JObj []) ''message'' = JUndefined"
    by (simp add: nested_text_def)
  note c = extraction_chain[where e = env_sample and userMessage = ?m and req = ?req
      and out = "[]" and X = "''The keynote is at 10:30 AM''" and Y = "''10:30 AM''"]
  show ?thesis
    using n
      c[where post = "answers (JObj [(''outputs'', JArr [JObj [(''outputs'', JArr [JObj
            [(''results'', JObj [(''message'', JObj [(''text'',
               JStr ''The keynote is at 10:30 AM'')])])]])]])])", OF r f]
      c[where post = "answers (JObj [(''message'', JStr ''10:30 AM'')])", OF r f]
      c[where post = "answers (JObj [])", OF r f]
    by simp
qed

text \<open>
  C4. A frame that \<^verbatim>\<open>JSON.parse\<close> rejects, or whose \<^verbatim>\<open>type\<close> cannot be read or is
  none of \<^verbatim>\<open>setup\<close>, \<^verbatim>\<open>prompt\<close>, \<^verbatim>\<open>interrupt\<close>, is logged (the last console entry is
  the error or the unknown type) and dropped: the handler finishes without an exception,
  sends nothing and leaves the socket as it was.
\<close>

theorem unrecognised_frame_dropped:
  assumes "parse data = None \<or>
           (\<exists>message. parse data = Some message \<and>
              get_prop message ''type'' \<notin>
                {Inr (JStr ''setup''), Inr (JStr ''prompt''), Inr (JStr ''interrupt'')})"
  shows "\<exists>s' entries. ws_on_message parse e post data s = (Fulfilled (), s') \<and>
           outbound s' = outbound s \<and> ws_closed s' = ws_closed s \<and>
           console s' = console s @ entries \<and> entries \<noteq> [] \<and>
           (\<exists>err t. last entries = LogMessageError err \<or> last entries = LogUnknownType t)"
proof (cases "parse data")
  case None
  then have "ws_on_message parse e post data s =
      (Fulfilled (), s\<lparr>console := console s @ [LogMessageError SyntaxError]\<rparr>)"
    by (simp add: ws_on_message_def message_begin_def message_catch_def console_log_def)
  then show ?thesis by simp
next
  case (Some message)
  with assms have k: "get_prop message ''type'' \<noteq> Inr (JStr ''setup'')"
      "get_prop message ''type'' \<noteq> Inr (JStr ''prompt'')"
      "get_prop message ''type'' \<noteq> Inr (JStr ''interrupt'')"
    by simp_all
  show ?thesis
  proof (cases "get_prop message ''type''")
    case (Inl err)
    with Some have "ws_on_message parse e post data s =
        (Fulfilled (),
         s\<lparr>console := console s @ [LogReceived (JSON_stringify message), LogMessageError err]\<rparr>)"
      by (simp add: ws_on_message_def message_begin_def message_catch_def console_log_def)
    then show ?thesis by simp
  next
    case (Inr t)
    with k have "t \<noteq> JStr ''setup''" "t \<noteq> JStr ''prompt''" "t \<noteq> JStr ''interrupt''"
      by simp_all
    with Some Inr have "ws_on_message parse e post data s =
        (Fulfilled (),
         s\<lparr>console := console s @ [LogReceived (JSON_stringify message), LogUnknownType t]\<rparr>)"
      by (simp add: ws_on_message_def message_begin_def console_log_def)
    then show ?thesis by simp
  qed
qed

theorem unrecognised_frame_dropped_witness:
  "parse_sample truncated_frame = None \<and>
   (\<exists>s'. ws_on_message parse_sample env_sample hung truncated_frame open_session =
       (Fulfilled (), s') \<and> outbound s' = [] \<and> \<not> ws_closed s' \<and> console s' \<noteq> []) \<and>
   parse_sample dtmf_frame = Some (JObj [(''type'', JStr ''dtmf''), (''digit'', JStr ''1'')]) \<and>
   (\<exists>s'. ws_on_message parse_sample env_sample hung dtmf_frame open_session =
       (Fulfilled (), s') \<and> outbound s' = [] \<and> \<not> ws_closed s' \<and> console s' \<noteq> [])"
proof -
  have a: "parse_sample truncated_frame = None"
    by (simp add: parse_sample_def truncated_frame_def)
  have b: "parse_sample dtmf_frame = Some (JObj [(''type'', JStr ''dtmf''), (''digit'', JStr ''1'')])"
    by (simp add: parse_sample_def dtmf_frame_def)
  have c: "\<exists>message. parse_sample dtmf_frame = Some message \<and>
      get_prop message ''type'' \<notin>
        {Inr (JStr ''setup''), Inr (JStr ''prompt''), Inr (JStr ''interrupt'')}"
    by (simp add: b)
  show ?thesis
    using a b
      unrecognised_frame_dropped[of parse_sample truncated_frame env_sample hung open_session,
        OF disjI1, OF a]
      unrecognised_frame_dropped[of parse_sample dtmf_frame env_sample hung open_session,
        OF disjI2, OF c]
    by (auto simp add: open_session_def)
qed

text \<open>
  C5, as stated, fails: two prompt frames that arrive before any agent call has settled
  leave two calls outstanding at the same time.
\<close>

theorem two_calls_outstanding_counterexample:
  "inflight (relay_run parse_sample env_sample [Frame keynote_frame, Frame lunch_frame]
      new_connection) = [0, 1] \<and>
   \<not> length (inflight (relay_run parse_sample env_sample
         [Frame keynote_frame, Frame lunch_frame] new_connection)) \<le> 1"
  by (simp add: two_prompts_state)

text \<open>
  C5, amended. With the endpoint configured, every prompt frame starts its own agent call
  at once, whatever calls are outstanding; nothing is queued and no call is superseded.
  After \<open>n\<close> prompt frames and no settled call, the \<open>n\<close> new calls are outstanding
  together with those that were outstanding before, and nothing has been sent.
\<close>

theorem every_prompt_starts_a_call:
  assumes "LANGFLOW_URL e = Some langflowUrl" and "langflowUrl \<noteq> []"
    and "\<forall>data\<in>set frames. \<exists>message.
           parse data = Some message \<and> get_prop message ''type'' = Inr (JStr ''prompt'')"
  shows "inflight (relay_run parse e (map Frame frames) r) =
           inflight r @ [started r ..< started r + length frames] \<and>
         outbound (sess (relay_run parse e (map Frame frames) r)) = outbound (sess r)"
  using assms(3)
proof (induction frames arbitrary: r)
  case Nil
  show ?case by (simp add: relay_run_Nil)
next
  case (Cons data frames)
  from Cons.prems obtain message where
    m: "parse data = Some message" "get_prop message ''type'' = Inr (JStr ''prompt'')"
    by auto
  from Cons.prems have rest: "\<forall>data\<in>set frames. \<exists>message.
      parse data = Some message \<and> get_prop message ''type'' = Inr (JStr ''prompt'')"
    by simp
  let ?r = "relay_step parse e (Frame data) r"
  note st = relay_step_prompt_fields[where parse = parse and data = data and e = e and r = r,
      OF m assms(1,2)]
  note ih = Cons.IH[OF rest, of ?r]
  have "inflight (relay_run parse e (map Frame (data # frames)) r) =
      inflight (relay_run parse e (map Frame frames) ?r)"
    by (simp add: relay_run_Cons del: relay_step.simps)
  also have "\<dots> = inflight ?r @ [started ?r..<started ?r + length frames]"
    using ih by simp
  also have "\<dots> = (inflight r @ [started r]) @ [Suc (started r)..<Suc (started r) + length frames]"
    by (simp only: st)
  also have "\<dots> = inflight r @ [started r..<started r + Suc (length frames)]"
    by (simp only: upt_add_Suc append_assoc append_Cons append_Nil)
  finally have 1: "inflight (relay_run parse e (map Frame (data # frames)) r) =
      inflight r @ [started r..<started r + length (data # frames)]"
    by simp
  have "outbound (sess (relay_run parse e (map Frame (data # frames)) r)) =
      outbound (sess (relay_run parse e (map Frame frames) ?r))"
    by (simp add: relay_run_Cons del: relay_step.simps)
  also have "\<dots> = outbound (sess ?r)"
    using ih by simp
  also have "\<dots> = outbound (sess r)"
    by (simp only: st)
  finally show ?case
    using 1 by simp
qed

theorem every_prompt_starts_a_call_witness:
  "inflight (relay_run parse_sample env_sample
      (map Frame [keynote_frame, lunch_frame, keynote_frame]) new_connection) = [0, 1, 2] \<and>
   outbound (sess (relay_run parse_sample env_sample
      (map Frame [keynote_frame, lunch_frame, keynote_frame]) new_connection)) = []"
proof -
  have k: "parse_sample keynote_frame =
      Some (JObj [(''type'', JStr ''prompt''), (''voicePrompt'', JStr ''What time is the keynote?'')])"
    by (simp add: parse_sample_def keynote_frame_def)
  have l: "parse_sample lunch_frame =
      Some (JObj [(''type'', JStr ''prompt''), (''voicePrompt'', JStr ''Where is lunch?'')])"
    by (simp add: parse_sample_def lunch_frame_def)
  have u: "LANGFLOW_URL env_sample = Some ''http://localhost:7860/api/v1/run/emcee''"
    by (simp add: env_sample_def)
  have a: "\<forall>data\<in>set [keynote_frame, lunch_frame, keynote_frame]. \<exists>message.
      parse_sample data = Some message \<and> get_prop message ''type'' = Inr (JStr ''prompt'')"
    by (simp add: k l)
  have n: "[0..<3] = [0, 1, 2::nat]"
    by (simp add: upt_conv_Cons)
  show ?thesis
    using every_prompt_starts_a_call[OF u _ a, of new_connection] n
    by (simp add: new_connection_def)
qed

text \<open>
  C6, as stated, fails: the keynote question is accepted before the lunch question, the
  call for the lunch question settles first, and its reply is sent first.
\<close>

theorem replies_reordered_counterexample:
  "outbound (sess (relay_run parse_sample env_sample
      [Frame keynote_frame, Frame lunch_frame,
       Settle 1 (Fulfilled (JObj [(''message'', JStr ''In the atrium'')])),
       Settle 0 (Fulfilled (JObj [(''message'', JStr ''10:30 AM'')]))]
      new_connection)) =
     [JObj [(''type'', JStr ''text''), (''token'', JStr ''In the atrium''),
            (''last'', JBool True), (''interruptible'', JBool True)],
      JObj [(''type'', JStr ''text''), (''token'', JStr ''10:30 AM''),
            (''last'', JBool True), (''interruptible'', JBool True)]]"
proof -
  have x: "extract_reply (JObj [(''message'', JStr (c # cs))]) = JStr (c # cs)" for c cs
    by (simp add: extract_reply_message_only)
  have a: "relay_run parse_sample env_sample
      [Frame keynote_frame, Frame lunch_frame,
       Settle 1 (Fulfilled (JObj [(''message'', JStr ''In the atrium'')])),
       Settle 0 (Fulfilled (JObj [(''message'', JStr ''10:30 AM'')]))]
      new_connection =
    relay_run parse_sample env_sample
      [Settle 1 (Fulfilled (JObj [(''message'', JStr ''In the atrium'')])),
       Settle 0 (Fulfilled (JObj [(''message'', JStr ''10:30 AM'')]))]
      (relay_run parse_sample env_sample [Frame keynote_frame, Frame lunch_frame] new_connection)"
    using relay_run_append[of parse_sample env_sample "[Frame keynote_frame, Frame lunch_frame]"
        "[Settle 1 (Fulfilled (JObj [(''message'', JStr ''In the atrium'')])),
          Settle 0 (Fulfilled (JObj [(''message'', JStr ''10:30 AM'')]))]" new_connection]
    by (simp only: append_Cons append_Nil)
  show ?thesis
    unfolding a two_prompts_state
    by (simp add: relay_run_Cons relay_run_Nil relay_drain_def
        agent_resume_Fulfilled prompt_resume_Fulfilled ws_send_def console_log_def
        response_message_def x)
qed

text \<open>
  C6, amended. On an open connection the reply frames are sent in the order in which the
  agent calls settle: when outstanding calls settle one after the other, each fulfilled or
  rejected, the frames sent are their replies (the extracted text, or the apology for a
  rejected call, as \<^verbatim>\<open>JSON.stringify\<close> writes them) in that order, whatever the order in
  which the calls were started. They follow the frames of the handlers that were ready to
  resume when the first call settled, if there were any.
\<close>

theorem replies_in_settling_order:
  assumes "distinct (map fst settled)"
    and "set (map fst settled) \<subseteq> set (inflight r)"
    and "\<forall>(i, response)\<in>set settled. response \<noteq> Pending"
    and "\<not> ws_closed (sess r)"
  shows "outbound (sess (relay_run parse e (map (\<lambda>(i, response). Settle i response) settled) r)) =
           outbound (sess (if settled = [] then r else relay_drain r)) @
           map (\<lambda>(i, response).
                  JObj [(''type'', JStr ''text''),
                        (''token'', JSON_stringify
                                      (case response of
                                         Fulfilled b \<Rightarrow> extract_reply b
                                       | _ \<Rightarrow> JStr apology)),
                        (''last'', JBool True), (''interruptible'', JBool True)])
               settled"
  using assms
proof (induction settled arbitrary: r)
  case Nil
  show ?case by (simp add: relay_run_Nil)
next
  case (Cons x settled)
  obtain i response where x: "x = (i, response)" by (cases x)
  from Cons.prems x have i: "i \<in> set (inflight r)" and p: "response \<noteq> Pending"
    by simp_all
  note st = relay_step_settle[OF i p, of parse e]
  let ?r = "relay_step parse e (Settle i response) r"
  have d: "distinct (map fst settled)"
    using Cons.prems(1) by simp
  have sub: "set (map fst settled) \<subseteq> set (inflight ?r)"
    unfolding st(3) using Cons.prems(1,2) x by auto
  have np: "\<forall>(i, response)\<in>set settled. response \<noteq> Pending"
    using Cons.prems(3) by simp
  have op: "\<not> ws_closed (sess ?r)"
    using Cons.prems(4) by (simp only: st(4) simp_thms)
  have dr: "(if settled = [] then ?r else relay_drain ?r) = ?r"
    by (simp add: relay_drain_Nil[OF st(6)] del: relay_step.simps)
  show ?case
    using Cons.IH[OF d sub np op]
    by (simp add: x relay_run_Cons dr st(1)[OF Cons.prems(4)] del: relay_step.simps)
qed

theorem replies_in_settling_order_witness:
  "outbound (sess (relay_run parse_sample env_sample
      (map (\<lambda>(i, response). Settle i response)
         [(1, Fulfilled (JObj [(''message'', JStr ''In the atrium'')])),
          (0, Rejected (HttpError TimedOut))])
      (relay_run parse_sample env_sample [Frame keynote_frame, Frame lunch_frame]
         new_connection))) =
     [JObj [(''type'', JStr ''text''), (''token'', JStr ''In the atrium''),
            (''last'', JBool True), (''interruptible'', JBool True)],
      JObj [(''type'', JStr ''text''),
            (''token'', JStr ''I'm sorry, I'm having trouble processing your request right now. Please try again later.''),
            (''last'', JBool True), (''interruptible'', JBool True)]]"
proof -
  let ?settled = "[(1::nat, Fulfilled (JObj [(''message'', JStr ''In the atrium'')])),
                   (0, Rejected (HttpError TimedOut))]"
  let ?r = "relay_run parse_sample env_sample [Frame keynote_frame, Frame lunch_frame]
              new_connection"
  have x: "extract_reply (JObj [(''message'', JStr ''In the atrium'')]) = JStr ''In the atrium''"
    by (simp add: extract_reply_message_only)
  have 1: "distinct (map fst ?settled)" by simp
  have 2: "set (map fst ?settled) \<subseteq> set (inflight ?r)"
    by (simp add: two_prompts_state)
  have 3: "\<forall>(i, response)\<in>set ?settled. response \<noteq> Pending" by simp
  have 4: "\<not> ws_closed (sess ?r)"
    by (simp add: two_prompts_state)
  have 5: "relay_drain ?r = ?r"
    by (simp add: two_prompts_state relay_drain_def)
  have 6: "outbound (sess ?r) = []"
    by (simp add: two_prompts_state)
  show ?thesis
    using replies_in_settling_order[OF 1 2 3 4, of parse_sample env_sample]
    by (simp add: 5 6 x apology_def)
qed


text \<open>
  C7. Handling \<^verbatim>\<open>setup\<close> frames, however many and in whatever state of the session
  (socket open or closed, agent calls outstanding or not), sends nothing: every handler
  finishes, the outbound frames are unchanged, and no agent call is started.
\<close>

theorem setup_never_replies:
  assumes "\<forall>data\<in>set frames. \<exists>message.
             parse data = Some message \<and> get_prop message ''type'' = Inr (JStr ''setup'')"
  shows "fst (ws_on_messages parse e post frames s) = Fulfilled () \<and>
         outbound (snd (ws_on_messages parse e post frames s)) = outbound s \<and>
         outbound (sess (relay_run parse e (map Frame frames) r)) = outbound (sess r) \<and>
         inflight (relay_run parse e (map Frame frames) r) = inflight r"
  using assms
proof (induction frames arbitrary: s r)
  case Nil
  show ?case by (simp add: relay_run_Nil)
next
  case (Cons data frames)
  from Cons.prems obtain message where
    m: "parse data = Some message" "get_prop message ''type'' = Inr (JStr ''setup'')"
    by auto
  from Cons.prems have rest: "\<forall>data\<in>set frames. \<exists>message.
      parse data = Some message \<and> get_prop message ''type'' = Inr (JStr ''setup'')"
    by simp
  note ih = Cons.IH[OF rest]
  show ?case
    using ih[of "s\<lparr>console := console s @ [LogReceived (JSON_stringify message), LogSetup]\<rparr>"
        "r\<lparr>sess := (sess r)\<lparr>console := console (sess r) @ [LogReceived (JSON_stringify message), LogSetup]\<rparr>\<rparr>"]
    by (simp add: ws_on_message_setup[where parse = parse and data = data, OF m]
        relay_run_Cons relay_step_setup[where parse = parse and data = data, OF m]
        del: relay_step.simps)
qed

theorem setup_never_replies_witness:
  "parse_sample setup_frame = Some (JObj [(''type'', JStr ''setup'')]) \<and>
   fst (ws_on_messages parse_sample env_sample hung [setup_frame, setup_frame, setup_frame]
          open_session) = Fulfilled () \<and>
   outbound (snd (ws_on_messages parse_sample env_sample hung
          [setup_frame, setup_frame, setup_frame] open_session)) = []"
proof -
  have p: "parse_sample setup_frame = Some (JObj [(''type'', JStr ''setup'')])"
    by (simp add: parse_sample_def setup_frame_def)
  have a: "\<forall>data\<in>set [setup_frame, setup_frame, setup_frame]. \<exists>message.
      parse_sample data = Some message \<and> get_prop message ''type'' = Inr (JStr ''setup'')"
    by (simp add: p)
  show ?thesis
    using setup_never_replies[OF a, of env_sample hung open_session] p
    by (simp add: open_session_def)
qed

text \<open>
  C8, as stated, fails: against a backend that never answers, \<^verbatim>\<open>callLangflowAgent\<close>
  never returns, and the handler of the prompt frame never finishes.
\<close>

theorem hung_backend_counterexample:
  "fst (callLangflowAgent env_sample hung (JStr ''What time is the keynote?'') []) = Pending \<and>
   fst (ws_on_message parse_sample env_sample hung keynote_frame open_session) = Pending"
proof -
  have p: "parse_sample keynote_frame =
      Some (JObj [(''type'', JStr ''prompt''), (''voicePrompt'', JStr ''What time is the keynote?'')])"
    by (simp add: parse_sample_def keynote_frame_def)
  have a: "callLangflowAgent env_sample hung m out = (Pending, out @ [LogCalling m])" for m out
    by (simp add: callLangflowAgent_def agent_request_def env_sample_def hung_def
        agent_resume_Pending)
  show ?thesis
    by (simp add: a prompt_resume_Pending
        ws_on_message_prompt[where parse = parse_sample and data = keynote_frame, OF p])
qed

text \<open>
  C8, amended. \<^verbatim>\<open>callLangflowAgent\<close> passes \<^verbatim>\<open>axios.post\<close> the headers as its only
  option, with no timeout. It stays pending exactly when the endpoint is configured and
  the promise of \<^verbatim>\<open>axios.post\<close> never settles; in every other case it returns.
\<close>

theorem no_timeout_on_post:
  "(\<forall>req. agent_request e userMessage = Inr req \<longrightarrow>
       map fst (req_config req) = [''headers''] \<and> map_of (req_config req) ''timeout'' = None) \<and>
   (fst (callLangflowAgent e post userMessage out) = Pending) =
     (\<exists>req. agent_request e userMessage = Inr req \<and> post req = Pending)"
proof -
  have 1: "map fst (req_config req) = [''headers''] \<and> map_of (req_config req) ''timeout'' = None"
    if "agent_request e userMessage = Inr req" for req
    using that by (auto simp add: agent_request_def split: option.splits if_splits)
  have 2: "(fst (agent_resume p out') = Pending) = (p = Pending)" for p out'
    by (cases p) (simp_all add: agent_resume_Pending agent_resume_Fulfilled agent_resume_Rejected)
  have 3: "(fst (callLangflowAgent e post userMessage out) = Pending) =
     (\<exists>req. agent_request e userMessage = Inr req \<and> post req = Pending)"
  proof (cases "agent_request e userMessage")
    case (Inl err)
    then show ?thesis by (simp add: callLangflowAgent_unconfigured)
  next
    case (Inr req)
    then show ?thesis by (simp add: callLangflowAgent_configured 2)
  qed
  from 1 3 show ?thesis by blast
qed

theorem no_timeout_on_post_witness:
  "(\<exists>req. agent_request env_sample (JStr ''Where is lunch?'') = Inr req \<and>
      map fst (req_config req) = [''headers''] \<and> hung req = Pending) \<and>
   fst (callLangflowAgent env_sample hung (JStr ''Where is lunch?'') []) = Pending \<and>
   fst (callLangflowAgent env_sample (fails TimedOut) (JStr ''Where is lunch?'') []) \<noteq> Pending"
proof -
  have r: "\<exists>req. agent_request env_sample (JStr ''Where is lunch?'') = Inr req"
    by (simp add: agent_request_def env_sample_def)
  show ?thesis
    using r no_timeout_on_post[of env_sample "JStr ''Where is lunch?''" hung "[]"]
      no_timeout_on_post[of env_sample "JStr ''Where is lunch?''" "fails TimedOut" "[]"]
    by (auto simp add: hung_def fails_def)
qed

text \<open>
  C9. For a call whose request has the host \<open>h\<close>, the webhook answers with a
  \<^verbatim>\<open>text/xml\<close> document that connects the call to a conversation relay at
  \<^verbatim>\<open>wss://h/websocket\<close>, with the fixed greeting and the language \<^verbatim>\<open>en-US\<close>. The
  construction has no failing branch: without a Host header the address is
  \<^verbatim>\<open>wss://undefined/websocket\<close>.
\<close>

theorem voice_descriptor:
  "voice (Some h) =
     \<lparr>res_type = ''text/xml'',
      res_send = VoiceResponse [Connect [ConversationRelay
        \<lparr>url = ''wss://'' @ h @ ''/websocket'',
         welcomeGreeting = ''Hello! I'm P, the event MC. How can I help you today?'',
         language = ''en-US''\<rparr>]]\<rparr> \<and>
   voice None =
     \<lparr>res_type = ''text/xml'',
      res_send = VoiceResponse [Connect [ConversationRelay
        \<lparr>url = ''wss://undefined/websocket'',
         welcomeGreeting = ''Hello! I'm P, the event MC. How can I help you today?'',
         language = ''en-US''\<rparr>]]\<rparr>"
  by (simp add: voice_def template_def greeting_def)

text \<open>
  C10, as stated, fails when the other field of the chain holds text: with an empty
  nested text and the top-level message \<^verbatim>\<open>"10:30 AM"\<close>, the function returns
  \<^verbatim>\<open>"10:30 AM"\<close>, not the "didn't understand" text.
\<close>

theorem empty_text_with_message_counterexample:
  "fst (callLangflowAgent env_sample
         (answers (JObj [(''outputs'', JArr [JObj [(''outputs'', JArr [JObj [(''results'',
            JObj [(''message'', JObj [(''text'', JStr '''')])])]])]]),
                         (''message'', JStr ''10:30 AM'')]))
         (JStr ''What time is the keynote?'') [])
     = Fulfilled (JStr ''10:30 AM'')"
  by (simp add: callLangflowAgent_def agent_request_def env_sample_def answers_def
      agent_resume_Fulfilled extract_reply_def nested_text_def js_or_def)

text \<open>
  C10, amended. The chain treats an empty string like an absent value. When the nested
  text and the top-level message are each empty or absent, the function returns the
  "didn't understand" text; when the nested text is empty and the top-level message is
  truthy, it returns the message; when the message is empty and the nested text is truthy,
  it returns the nested text. It never returns the empty string.
\<close>

theorem empty_string_like_absent:
  assumes "agent_request e userMessage = Inr req" and "post req = Fulfilled b"
  shows "(nested_text b \<in> {JStr [], JUndefined} \<and> opt_prop b ''message'' \<in> {JStr [], JUndefined}
            \<longrightarrow> fst (callLangflowAgent e post userMessage out) =
                  Fulfilled (JStr ''I'm sorry, I didn't understand that. Could you please try again?'')) \<and>
         (nested_text b = JStr [] \<and> truthy (opt_prop b ''message'')
            \<longrightarrow> fst (callLangflowAgent e post userMessage out) = Fulfilled (opt_prop b ''message'')) \<and>
         (opt_prop b ''message'' = JStr [] \<and> truthy (nested_text b)
            \<longrightarrow> fst (callLangflowAgent e post userMessage out) = Fulfilled (nested_text b)) \<and>
         fst (callLangflowAgent e post userMessage out) \<noteq> Fulfilled (JStr [])"
proof -
  have r: "fst (callLangflowAgent e post userMessage out) = Fulfilled (extract_reply b)"
    using assms by (simp add: callLangflowAgent_configured agent_resume_Fulfilled)
  have ne: "extract_reply b \<noteq> JStr []"
    using truthy_extract_reply[of b] by auto
  have 1: "extract_reply b = JStr didnt_understand"
    if "nested_text b \<in> {JStr [], JUndefined}" "opt_prop b ''message'' \<in> {JStr [], JUndefined}"
    using that by (auto simp add: extract_reply_fallback)
  have 2: "extract_reply b = opt_prop b ''message''"
    if "nested_text b = JStr []" "truthy (opt_prop b ''message'')"
    using that by (simp add: extract_reply_message)
  have 3: "extract_reply b = nested_text b" if "truthy (nested_text b)"
    using that by (rule extract_reply_nested)
  show ?thesis
    unfolding didnt_understand_def[symmetric] r
    using ne 1 2 3 by blast
qed

theorem empty_string_like_absent_witness:
  "fst (callLangflowAgent env_sample (answers (nested_body (JStr ''''))) (JStr ''Where is lunch?'') [])
     = Fulfilled (JStr ''I'm sorry, I didn't understand that. Could you please try again?'') \<and>
   fst (callLangflowAgent env_sample (answers (JObj [(''message'', JStr '''')])) (JStr ''Where is lunch?'') [])
     = Fulfilled (JStr ''I'm sorry, I didn't understand that. Could you please try again?'')"
proof -
  let ?m = "JStr ''Where is lunch?''"
  let ?req = "\<lparr>req_url = ''http://localhost:7860/api/v1/run/emcee'',
              req_payload = payload ?m,
              req_config = [(''headers'', JObj (headers (Some ''sk-test'')))]\<rparr>"
  have r: "agent_request env_sample ?m = Inr ?req"
    by (simp add: agent_request_def env_sample_def)
  have f: "answers b ?req = Fulfilled b" for b
    by (simp add: answers_def)
  have n: "nested_text (JObj [(''message'', JStr '''')]) = JUndefined"
    by (simp add: nested_text_def)
  note c = empty_string_like_absent[where e = env_sample and userMessage = ?m and req = ?req
      and out = "[]"]
  show ?thesis
    using n
      c[where post = "answers (nested_body (JStr ''''))", OF r f]
      c[where post = "answers (JObj [(''message'', JStr '''')])", OF r f]
    by (simp add: nested_text_nested_body message_nested_body)
qed

end
